theory Spec2Isabelle
  imports Main
begin

section \<open>JavaScript values\<close>

text \<open>
  The Paragraph tool of \<^verbatim>\<open>src/index.js\<close> is a JavaScript class working on plain objects and on
  DOM elements. The values stored in the fields of its objects are the primitives below; numbers and
  nested objects do not occur in the data the class handles (\<^verbatim>\<open>ParagraphData\<close>,
  \<^verbatim>\<open>ParagraphConfig\<close>) and are left out. A string is a list of code units; the model keeps the
  code units below 256.
\<close>

datatype jsval = Undefined | Null | JBool bool | JStr string

datatype jserror = TypeError

text \<open>A plain object: own properties by key. Reading a missing property yields \<^verbatim>\<open>undefined\<close>.\<close>

type_synonym obj = "string \<rightharpoonup> jsval"

definition get_prop :: "obj \<Rightarrow> string \<Rightarrow> jsval" where
  "get_prop m k = (case m k of None \<Rightarrow> Undefined | Some v \<Rightarrow> v)"

text \<open>\<^verbatim>\<open>ToBoolean\<close>, and the operators \<^verbatim>\<open>||\<close>, \<^verbatim>\<open>&&\<close> built on it.\<close>

fun truthy :: "jsval \<Rightarrow> bool" where
  "truthy Undefined = False"
| "truthy Null = False"
| "truthy (JBool b) = b"
| "truthy (JStr s) = (s \<noteq> [])"

definition js_or :: "jsval \<Rightarrow> jsval \<Rightarrow> jsval" where
  "js_or a b = (if truthy a then a else b)"

definition js_and :: "jsval \<Rightarrow> jsval \<Rightarrow> jsval" where
  "js_and a b = (if truthy a then b else a)"

text \<open>\<^verbatim>\<open>ToString\<close> on primitives, as string concatenation and DOM string attributes apply it.\<close>

fun toString :: "jsval \<Rightarrow> string" where
  "toString Undefined = ''undefined''"
| "toString Null = ''null''"
| "toString (JBool b) = (if b then ''true'' else ''false'')"
| "toString (JStr s) = s"

text \<open>
  \<^verbatim>\<open>String.prototype.trim\<close> strips white space and line terminators from both ends. Among the
  code units below 256 these are TAB, LF, VT, FF, CR, SPACE and NO-BREAK SPACE.
\<close>

definition is_white_space :: "char \<Rightarrow> bool" where
  "is_white_space c =
     (c \<in> set [CHR 0x09, CHR 0x0A, CHR 0x0B, CHR 0x0C, CHR 0x0D, CHR 0x20, CHR 0xA0])"

definition trim :: "string \<Rightarrow> string" where
  "trim s = rev (dropWhile is_white_space (rev (dropWhile is_white_space s)))"

text \<open>
  \<^verbatim>\<open>v.trim()\<close> for a property value \<^verbatim>\<open>v\<close>: reading a property of \<^verbatim>\<open>undefined\<close> or
  \<^verbatim>\<open>null\<close> is a TypeError; a boolean has no \<^verbatim>\<open>trim\<close>, so the call is a TypeError as well.
\<close>

fun call_trim :: "jsval \<Rightarrow> jserror + string" where
  "call_trim (JStr s) = Inr (trim s)"
| "call_trim v = Inl TypeError"

text \<open>
  The operator \<^verbatim>\<open>+\<close> with a string operand concatenates \<^verbatim>\<open>ToString\<close> of both operands.
  The class uses it with the \<^verbatim>\<open>text\<close> the getter \<^verbatim>\<open>data\<close> has just read from the element,
  a string, on the left.
\<close>

definition string_plus :: "jsval \<Rightarrow> jsval \<Rightarrow> jsval" where
  "string_plus a b = JStr (toString a @ toString b)"

section \<open>The DOM and the object store\<close>

text \<open>The event listener \<^verbatim>\<open>drawView\<close> registers: the instance's bound \<^verbatim>\<open>onKeyUp\<close>.\<close>

datatype handler = OnKeyUp

text \<open>
  A DOM element, with the properties the class touches. \<^verbatim>\<open>classList\<close> is an ordered set of
  tokens. The field \<^verbatim>\<open>innerHTML\<close> is what a read of the property returns: the serialised
  markup of the element's content. The user's typing changes it; so does a write of the
  property, which parses the string written (see \<open>read_back\<close> below).
\<close>

record element =
  tag :: string
  classList :: "string list"
  contentEditable :: string
  dataset :: "string \<rightharpoonup> string"
  innerHTML :: string
  listeners :: "(string \<times> handler) list"

text \<open>
  Objects and elements live in stores addressed by references, so that two names for one object
  see each other's writes. A reference never dangles in JavaScript: the stores are total and a
  counter gives the next fresh reference.

  Writing a string to \<^verbatim>\<open>innerHTML\<close> makes the document parse it into nodes, and reading the
  property serialises the nodes again. \<open>read_back\<close> is that parser followed by that serialiser:
  the markup an element gives back once a string has been written into it. It belongs to the
  browser, not to the class, and nothing is assumed of it.
\<close>

record world =
  objs :: "nat \<Rightarrow> obj"
  next_obj :: nat
  elems :: "nat \<Rightarrow> element"
  next_elem :: nat
  read_back :: "string \<Rightarrow> string"

definition new_object :: "obj \<Rightarrow> world \<Rightarrow> nat \<times> world" where
  "new_object m w = (next_obj w, w\<lparr>objs := (objs w)(next_obj w := m), next_obj := Suc (next_obj w)\<rparr>)"

definition set_prop :: "nat \<Rightarrow> string \<Rightarrow> jsval \<Rightarrow> world \<Rightarrow> world" where
  "set_prop r k v w = w\<lparr>objs := (objs w)(r := (objs w r)(k \<mapsto> v))\<rparr>"

text \<open>\<^verbatim>\<open>Object.assign(target, source)\<close> copies the source's properties onto the target and
  returns the target; the model returns the changed store, the caller keeps the reference.\<close>

definition Object_assign :: "nat \<Rightarrow> obj \<Rightarrow> world \<Rightarrow> world" where
  "Object_assign r src w = w\<lparr>objs := (objs w)(r := objs w r ++ src)\<rparr>"

definition new_element :: "string \<Rightarrow> element" where
  "new_element t = \<lparr>tag = t, classList = [], contentEditable = ''inherit'', dataset = Map.empty,
     innerHTML = [], listeners = []\<rparr>"

definition createElement :: "string \<Rightarrow> world \<Rightarrow> nat \<times> world" where
  "createElement t w =
     (next_elem w, w\<lparr>elems := (elems w)(next_elem w := new_element t), next_elem := Suc (next_elem w)\<rparr>)"

definition upd_elem :: "nat \<Rightarrow> (element \<Rightarrow> element) \<Rightarrow> world \<Rightarrow> world" where
  "upd_elem e f w = w\<lparr>elems := (elems w)(e := f (elems w e))\<rparr>"

text \<open>\<^verbatim>\<open>DOMTokenList\<close>: \<^verbatim>\<open>add\<close> appends the tokens not yet present, \<^verbatim>\<open>remove\<close> deletes a
  token, \<^verbatim>\<open>toggle(token, force)\<close> adds when \<^verbatim>\<open>force\<close> holds and removes otherwise. The
  tokens are CSS class names.\<close>

fun classList_add :: "string list \<Rightarrow> string list \<Rightarrow> string list" where
  "classList_add [] cl = cl"
| "classList_add (t # ts) cl = classList_add ts (if t \<in> set cl then cl else cl @ [t])"

definition classList_remove :: "string \<Rightarrow> string list \<Rightarrow> string list" where
  "classList_remove t cl = filter (\<lambda>c. c \<noteq> t) cl"

definition classList_toggle :: "string \<Rightarrow> bool \<Rightarrow> string list \<Rightarrow> string list" where
  "classList_toggle t force cl = (if force then classList_add [t] cl else classList_remove t cl)"

definition addEventListener :: "string \<Rightarrow> handler \<Rightarrow> element \<Rightarrow> element" where
  "addEventListener ty h e =
     (if (ty, h) \<in> set (listeners e) then e else e\<lparr>listeners := listeners e @ [(ty, h)]\<rparr>)"

section \<open>The class Paragraph of src/index.js\<close>

definition DEFAULT_PLACEHOLDER :: string where
  "DEFAULT_PLACEHOLDER = ''''"

text \<open>The object \<^verbatim>\<open>ALIGNMENTS\<close>, as its properties in order; \<^verbatim>\<open>Object.values\<close> lists their
  values.\<close>

definition ALIGNMENTS :: "(string \<times> jsval) list" where
  "ALIGNMENTS = [(''left'', JStr ''left''), (''center'', JStr ''center''), (''right'', JStr ''right'')]"

definition Object_values :: "(string \<times> jsval) list \<Rightarrow> jsval list" where
  "Object_values kvs = map snd kvs"

definition DEFAULT_ALIGNMENT :: jsval where
  "DEFAULT_ALIGNMENT = get_prop (map_of ALIGNMENTS) ''left''"

text \<open>The names of the getter \<^verbatim>\<open>settings\<close>, in its order (each entry also carries an icon,
  markup that no operation below reads).\<close>

definition settings :: "string list" where
  "settings = [''left'', ''center'', ''right'']"

text \<open>The host's \<^verbatim>\<open>api\<close>: the class names of \<^verbatim>\<open>api.styles\<close> and the translation
  \<^verbatim>\<open>api.i18n.t\<close>.\<close>

record api =
  styles_block :: string
  styles_settingsButton :: string
  styles_settingsButtonActive :: string
  i18n_t :: "jsval \<Rightarrow> jsval"

record css =
  block :: string
  wrapper :: string
  settingsWrapper :: string
  settingsButton :: string
  settingsButtonActive :: string

text \<open>The instance: \<^verbatim>\<open>this._data\<close> and \<^verbatim>\<open>this._element\<close> are references into the stores.\<close>

record Paragraph =
  this_api :: api
  this_CSS :: css
  this_placeholder :: jsval
  this_data :: nat
  this_element :: nat
  this_preserveBlank :: jsval

text \<open>
  \<^verbatim>\<open>drawView\<close> runs inside the constructor, before \<^verbatim>\<open>this._element\<close> is assigned; it reads
  \<^verbatim>\<open>this.api\<close>, \<^verbatim>\<open>this._CSS\<close> and \<^verbatim>\<open>this._placeholder\<close>, which are its arguments here.
\<close>

definition drawView :: "api \<Rightarrow> css \<Rightarrow> jsval \<Rightarrow> world \<Rightarrow> nat \<times> world" where
  "drawView a c ph w =
     (let (el, w1) = createElement ''DIV'' w;
          w2 = upd_elem el (\<lambda>e. e\<lparr>classList := classList_add [wrapper c, block c] (classList e)\<rparr>) w1;
          w3 = upd_elem el (\<lambda>e. e\<lparr>contentEditable := toString (JBool True)\<rparr>) w2;
          w4 = upd_elem el (\<lambda>e. e\<lparr>dataset := (dataset e)(''placeholder'' \<mapsto> toString (i18n_t a ph))\<rparr>) w3;
          w5 = upd_elem el (addEventListener ''keyup'' OnKeyUp) w4
      in (el, w5))"

definition render :: "Paragraph \<Rightarrow> nat" where
  "render p = this_element p"

text \<open>The getter \<^verbatim>\<open>data\<close>: stores the element's markup in the record's \<^verbatim>\<open>text\<close> and returns
  the record, by reference.\<close>

definition get_data :: "Paragraph \<Rightarrow> world \<Rightarrow> nat \<times> world" where
  "get_data p w =
     (let text = innerHTML (elems w (this_element p));
          w1 = set_prop (this_data p) ''text'' (JStr text) w
      in (this_data p, w1))"

text \<open>The setter \<^verbatim>\<open>data\<close>: the argument is a reference to a record, or \<^verbatim>\<open>null\<close> /
  \<^verbatim>\<open>undefined\<close> (\<open>None\<close>), replaced by a fresh empty object.\<close>

definition set_data :: "Paragraph \<Rightarrow> nat option \<Rightarrow> world \<Rightarrow> Paragraph \<times> world" where
  "set_data p d w =
     (let (r, w1) = (case d of Some r \<Rightarrow> (r, w) | None \<Rightarrow> new_object Map.empty w);
          p1 = p\<lparr>this_data := r\<rparr>;
          w2 = upd_elem (this_element p1)
                 (\<lambda>e. e\<lparr>innerHTML :=
                    read_back w1 (toString (js_or (get_prop (objs w1 r) ''text'') (JStr '''')))\<rparr>) w1
      in (p1, w2))"

definition resolve_alignment :: "obj \<Rightarrow> obj \<Rightarrow> jsval" where
  "resolve_alignment d c =
     js_or (js_or (js_and (JBool (get_prop d ''alignment'' \<in> set (Object_values ALIGNMENTS)))
                          (get_prop d ''alignment''))
                  (get_prop c ''defaultAlignment''))
           DEFAULT_ALIGNMENT"

definition constructor :: "obj \<Rightarrow> obj \<Rightarrow> api \<Rightarrow> world \<Rightarrow> Paragraph \<times> world" where
  "constructor d c a w =
     (let CSS = \<lparr>block = styles_block a, wrapper = ''ce-paragraph'',
                 settingsWrapper = ''cdx-paragraph-settings'',
                 settingsButton = styles_settingsButton a,
                 settingsButtonActive = styles_settingsButtonActive a\<rparr>;
          ph = (if truthy (get_prop c ''placeholder'') then get_prop c ''placeholder''
                else JStr DEFAULT_PLACEHOLDER);
          (d0, w1) = new_object Map.empty w;
          (el, w2) = drawView a CSS ph w1;
          pb = (if get_prop c ''preserveBlank'' \<noteq> Undefined then get_prop c ''preserveBlank''
                else JBool False);
          p = \<lparr>this_api = a, this_CSS = CSS, this_placeholder = ph, this_data = d0,
               this_element = el, this_preserveBlank = pb\<rparr>;
          (lit, w3) = new_object [''text'' \<mapsto> js_or (get_prop d ''text'') (JStr ''''),
                                  ''alignment'' \<mapsto> resolve_alignment d c] w2
      in set_data p (Some lit) w3)"

definition merge :: "Paragraph \<Rightarrow> obj \<Rightarrow> world \<Rightarrow> Paragraph \<times> world" where
  "merge p d w =
     (let (r1, w1) = get_data p w;
          newData = [''text'' \<mapsto> string_plus (get_prop (objs w1 r1) ''text'') (get_prop d ''text'')];
          (r2, w2) = get_data p w1;
          w3 = Object_assign r2 newData w2
      in set_data p (Some r2) w3)"

definition validate :: "Paragraph \<Rightarrow> obj \<Rightarrow> jserror + bool" where
  "validate p savedData =
     (case call_trim (get_prop savedData ''text'') of
        Inl e \<Rightarrow> Inl e
      | Inr s \<Rightarrow> if s = '''' \<and> \<not> truthy (this_preserveBlank p) then Inr False else Inr True)"

text \<open>\<^verbatim>\<open>save(toolsContent)\<close>: the argument is a reference to an element, the result a reference
  to a record.\<close>

definition save :: "Paragraph \<Rightarrow> nat \<Rightarrow> world \<Rightarrow> nat \<times> world" where
  "save p toolsContent w =
     (let (r, w1) = get_data p w;
          src = [''text'' \<mapsto> JStr (innerHTML (elems w1 toolsContent))]
      in (r, Object_assign r src w1))"

text \<open>\<^verbatim>\<open>onPaste(event)\<close>: the argument here is the element \<^verbatim>\<open>event.detail.data\<close>.\<close>

definition onPaste :: "Paragraph \<Rightarrow> nat \<Rightarrow> world \<Rightarrow> Paragraph \<times> world" where
  "onPaste p detail_data w =
     (let dat = [''text'' \<mapsto> JStr (innerHTML (elems w detail_data))];
          (r, w1) = get_data p w;
          w2 = Object_assign r dat w1
      in set_data p (Some r) w2)"

text \<open>
  \<^verbatim>\<open>Array.prototype.forEach\<close> with a callback that may throw: the first exception ends the
  loop, and the writes made so far stay.
\<close>

fun forEach :: "('a \<Rightarrow> world \<Rightarrow> (jserror + unit) \<times> world) \<Rightarrow> 'a list \<Rightarrow> world \<Rightarrow> (jserror + unit) \<times> world" where
  "forEach f [] w = (Inr (), w)"
| "forEach f (x # xs) w =
     (case f x w of (Inl e, w1) \<Rightarrow> (Inl e, w1) | (Inr u, w1) \<Rightarrow> forEach f xs w1)"

text \<open>
  Reading a property that primitives do not have (\<^verbatim>\<open>classList\<close>, \<^verbatim>\<open>toggle\<close>): a TypeError on
  \<^verbatim>\<open>undefined\<close> and \<^verbatim>\<open>null\<close>, \<^verbatim>\<open>undefined\<close> on a boolean or a string.
\<close>

fun member_of :: "jsval \<Rightarrow> jserror + jsval" where
  "member_of Undefined = Inl TypeError"
| "member_of Null = Inl TypeError"
| "member_of v = Inr Undefined"

text \<open>\<^verbatim>\<open>this.wrapper\<close>: neither the constructor nor any method assigns this property.\<close>

definition this_wrapper :: "Paragraph \<Rightarrow> jsval" where
  "this_wrapper p = Undefined"

text \<open>
  The callback of \<^verbatim>\<open>_toggleTune\<close>, \<^verbatim>\<open>this.wrapper.classList.toggle(tune.name, ...)\<close>: the
  member reads come first; what they yield here is never a function, so the call is a TypeError.
\<close>

definition toggle_wrapper_class :: "Paragraph \<Rightarrow> string \<Rightarrow> world \<Rightarrow> (jserror + unit) \<times> world" where
  "toggle_wrapper_class p name w =
     (case member_of (this_wrapper p) of
        Inl e \<Rightarrow> (Inl e, w)
      | Inr cl \<Rightarrow> (case member_of cl of Inl e \<Rightarrow> (Inl e, w) | Inr f \<Rightarrow> (Inl TypeError, w)))"

definition toggleTune :: "Paragraph \<Rightarrow> jsval \<Rightarrow> world \<Rightarrow> (jserror + unit) \<times> world" where
  "toggleTune p tune w =
     (let (r, w1) = get_data p w;
          w2 = set_prop r ''alignment'' tune w1
      in forEach (toggle_wrapper_class p) settings w2)"

text \<open>
  The click listener that \<^verbatim>\<open>renderSettings\<close> attaches to the button \<^verbatim>\<open>index\<close>;
  \<^verbatim>\<open>elements\<close> are the buttons. \<^verbatim>\<open>this.settings[i]\<close> out of range is \<^verbatim>\<open>undefined\<close>, and
  reading its \<^verbatim>\<open>name\<close> a TypeError.
\<close>

definition settings_at :: "nat \<Rightarrow> string option" where
  "settings_at i = (if i < length settings then Some (settings ! i) else None)"

definition mark_active :: "Paragraph \<Rightarrow> nat \<times> nat \<Rightarrow> world \<Rightarrow> (jserror + unit) \<times> world" where
  "mark_active p el_i w =
     (case settings_at (snd el_i) of
        None \<Rightarrow> (Inl TypeError, w)
      | Some name \<Rightarrow>
          (let (r, w1) = get_data p w;
               force = (JStr name = get_prop (objs w1 r) ''alignment'')
           in (Inr (), upd_elem (fst el_i)
                 (\<lambda>e. e\<lparr>classList := classList_toggle (settingsButtonActive (this_CSS p)) force (classList e)\<rparr>)
                 w1)))"

definition settings_click :: "Paragraph \<Rightarrow> nat \<Rightarrow> nat list \<Rightarrow> world \<Rightarrow> (jserror + unit) \<times> world" where
  "settings_click p index elements w =
     (case settings_at index of
        None \<Rightarrow> (Inl TypeError, w)
      | Some name \<Rightarrow>
          (case toggleTune p (JStr name) w of
             (Inl e, w1) \<Rightarrow> (Inl e, w1)
           | (Inr u, w1) \<Rightarrow> forEach (mark_active p) (zip elements [0..<length elements]) w1))"

section \<open>The bundled build of the class\<close>

text \<open>
  The repository also ships a minified build of the class. It differs from \<^verbatim>\<open>src/index.js\<close> in
  two methods. Its \<^verbatim>\<open>_toggleTune\<close> removes the three alignment classes from
  \<^verbatim>\<open>this._element\<close> and adds the class of the new alignment. Its \<^verbatim>\<open>drawView\<close> ends with
  \<^verbatim>\<open>this._element.classList.add(this.data.alignment)\<close>; \<open>None\<close> stands for a
  \<^verbatim>\<open>this._element\<close> not yet assigned, which is the case when the constructor calls it.
\<close>

definition toggleTune_dist :: "Paragraph \<Rightarrow> jsval \<Rightarrow> world \<Rightarrow> world" where
  "toggleTune_dist p tune w =
     (let (r, w1) = get_data p w;
          w2 = set_prop r ''alignment'' tune w1;
          w3 = fold (\<lambda>name. upd_elem (this_element p)
                 (\<lambda>e. e\<lparr>classList := classList_remove name (classList e)\<rparr>)) settings w2;
          (r1, w4) = get_data p w3
      in upd_elem (this_element p)
           (\<lambda>e. e\<lparr>classList := classList_add [toString (get_prop (objs w4 r1) ''alignment'')] (classList e)\<rparr>)
           w4)"

definition drawView_dist :: "api \<Rightarrow> css \<Rightarrow> jsval \<Rightarrow> nat option \<Rightarrow> nat \<Rightarrow> world \<Rightarrow> (jserror + nat) \<times> world" where
  "drawView_dist a c ph this_el this_dat w =
     (let (el, w5) = drawView a c ph w
      in case this_el of
           None \<Rightarrow> (Inl TypeError, w5)
         | Some e \<Rightarrow>
             (let w6 = set_prop this_dat ''text'' (JStr (innerHTML (elems w5 e))) w5;
                  w7 = upd_elem e
                         (\<lambda>x. x\<lparr>classList := classList_add [toString (get_prop (objs w6 this_dat) ''alignment'')] (classList x)\<rparr>)
                         w6
              in (Inr el, w7)))"

definition constructor_dist :: "obj \<Rightarrow> obj \<Rightarrow> api \<Rightarrow> world \<Rightarrow> (jserror + Paragraph) \<times> world" where
  "constructor_dist d c a w =
     (let CSS = \<lparr>block = styles_block a, wrapper = ''ce-paragraph'',
                 settingsWrapper = ''cdx-paragraph-settings'',
                 settingsButton = styles_settingsButton a,
                 settingsButtonActive = styles_settingsButtonActive a\<rparr>;
          ph = (if truthy (get_prop c ''placeholder'') then get_prop c ''placeholder''
                else JStr DEFAULT_PLACEHOLDER);
          (d0, w1) = new_object Map.empty w
      in case drawView_dist a CSS ph None d0 w1 of
           (Inl e, w2) \<Rightarrow> (Inl e, w2)
         | (Inr el, w2) \<Rightarrow>
             (let pb = (if get_prop c ''preserveBlank'' \<noteq> Undefined then get_prop c ''preserveBlank''
                        else JBool False);
                  p = \<lparr>this_api = a, this_CSS = CSS, this_placeholder = ph, this_data = d0,
                       this_element = el, this_preserveBlank = pb\<rparr>;
                  (lit, w3) = new_object [''text'' \<mapsto> js_or (get_prop d ''text'') (JStr ''''),
                                          ''alignment'' \<mapsto> resolve_alignment d c] w2;
                  (p1, w4) = set_data p (Some lit) w3
              in (Inr p1, w4)))"

section \<open>Observations and example inputs\<close>

text \<open>The record an instance holds, and the record a read of its property \<^verbatim>\<open>data\<close> returns.\<close>

definition stored_record :: "Paragraph \<times> world \<Rightarrow> obj" where
  "stored_record pw = objs (snd pw) (this_data (fst pw))"

definition data_read :: "Paragraph \<times> world \<Rightarrow> obj" where
  "data_read pw = (case get_data (fst pw) (snd pw) of (r, w) \<Rightarrow> objs w r)"

text \<open>The stored alignment is one of the values of \<^verbatim>\<open>ALIGNMENTS\<close>.\<close>

definition aligned :: "Paragraph \<times> world \<Rightarrow> bool" where
  "aligned pw = (get_prop (stored_record pw) ''alignment'' \<in> set (Object_values ALIGNMENTS))"

text \<open>The alignment classes an element carries, in the order of its class list.\<close>

definition alignment_classes :: "element \<Rightarrow> string list" where
  "alignment_classes e = filter (\<lambda>c. c \<in> set settings) (classList e)"

text \<open>
  A browser for the examples. On markup whose tags are balanced and written as the serialiser
  writes them, and whose text has no character references, the HTML fragment serialiser gives
  the tags back as they are and escapes the text: \<^verbatim>\<open>&\<close> comes back as \<^verbatim>\<open>&amp;\<close>,
  \<^verbatim>\<open>>\<close> as \<^verbatim>\<open>&gt;\<close>, NO-BREAK SPACE as \<^verbatim>\<open>&nbsp;\<close>. The flag tells whether the scan is
  inside a tag.
\<close>

fun serialise :: "bool \<Rightarrow> string \<Rightarrow> string" where
  "serialise in_tag [] = []"
| "serialise in_tag (c # cs) =
     (if in_tag then c # serialise (c \<noteq> CHR ''>'') cs
      else if c = CHR ''<'' then c # serialise True cs
      else if c = CHR ''&'' then ''&amp;'' @ serialise False cs
      else if c = CHR ''>'' then ''&gt;'' @ serialise False cs
      else if c = CHR 0xA0 then ''&nbsp;'' @ serialise False cs
      else c # serialise False cs)"

text \<open>A host \<^verbatim>\<open>api\<close> with the editor's class names and the identity translation, and a
  document with nothing in it, in that browser.\<close>

definition api0 :: api where
  "api0 = \<lparr>styles_block = ''ce-block'', styles_settingsButton = ''cdx-settings-button'',
     styles_settingsButtonActive = ''cdx-settings-button--active'', i18n_t = (\<lambda>v. v)\<rparr>"

definition world0 :: world where
  "world0 = \<lparr>objs = (\<lambda>r. Map.empty), next_obj = 0, elems = (\<lambda>e. new_element ''''), next_elem = 0,
     read_back = serialise False\<rparr>"

definition block_of :: "string \<Rightarrow> string \<Rightarrow> Paragraph \<times> world" where
  "block_of t al = constructor [''text'' \<mapsto> JStr t, ''alignment'' \<mapsto> JStr al] Map.empty api0 world0"

text \<open>The user edits the paragraph in the browser: the element's markup becomes \<open>s\<close>; the
  stored record is not touched.\<close>

definition typed :: "string \<Rightarrow> Paragraph \<times> world \<Rightarrow> Paragraph \<times> world" where
  "typed s pw = (fst pw, upd_elem (this_element (fst pw)) (\<lambda>e. e\<lparr>innerHTML := s\<rparr>) (snd pw))"

section \<open>What each operation does to the stores\<close>

lemma get_prop_upd [simp]: "get_prop (m(k \<mapsto> v)) k' = (if k' = k then v else get_prop m k')"
  by (simp add: get_prop_def)

lemma get_prop_empty [simp]: "get_prop Map.empty k = Undefined"
  by (simp add: get_prop_def)

lemma js_or_twice: "js_or (js_or a b) b = js_or a b"
  by (simp add: js_or_def)

lemma toString_string_or_empty: "toString (js_or (JStr s) (JStr '''')) = s"
  by (simp add: js_or_def)

lemma get_data_eq:
  "get_data p w = (this_data p,
     w\<lparr>objs := (objs w)(this_data p :=
          (objs w (this_data p))(''text'' \<mapsto> JStr (innerHTML (elems w (this_element p)))))\<rparr>)"
  by (simp add: get_data_def set_prop_def)

lemma save_eq:
  "save p e w = (this_data p,
     w\<lparr>objs := (objs w)(this_data p :=
          (objs w (this_data p))(''text'' \<mapsto> JStr (innerHTML (elems w e))))\<rparr>)"
  by (simp add: save_def get_data_eq Object_assign_def)

lemma onPaste_eq:
  "onPaste p e w = (p,
     w\<lparr>objs := (objs w)(this_data p :=
          (objs w (this_data p))(''text'' \<mapsto> JStr (innerHTML (elems w e)))),
       elems := (elems w)(this_element p :=
          (elems w (this_element p))\<lparr>innerHTML := read_back w (innerHTML (elems w e))\<rparr>)\<rparr>)"
  by (simp add: onPaste_def get_data_eq Object_assign_def set_data_def upd_elem_def Let_def
      toString_string_or_empty)

lemma merge_eq:
  "merge p d w = (p,
     w\<lparr>objs := (objs w)(this_data p := (objs w (this_data p))
          (''text'' \<mapsto> JStr (innerHTML (elems w (this_element p)) @ toString (get_prop d ''text'')))),
       elems := (elems w)(this_element p := (elems w (this_element p))
          \<lparr>innerHTML :=
             read_back w (innerHTML (elems w (this_element p)) @ toString (get_prop d ''text''))\<rparr>)\<rparr>)"
  by (simp add: merge_def get_data_eq Object_assign_def set_data_def upd_elem_def string_plus_def
      Let_def toString_string_or_empty)

text \<open>\<^verbatim>\<open>_toggleTune\<close> stores the alignment, then its first callback throws: no element changes.\<close>

lemma toggleTune_eq:
  "toggleTune p tune w = (Inl TypeError,
     w\<lparr>objs := (objs w)(this_data p := (objs w (this_data p))
          (''text'' \<mapsto> JStr (innerHTML (elems w (this_element p))), ''alignment'' \<mapsto> tune))\<rparr>)"
  by (simp add: toggleTune_def get_data_eq set_prop_def settings_def toggle_wrapper_class_def
      this_wrapper_def)

lemma drawView_eq:
  "drawView a c ph w = (next_elem w,
     w\<lparr>elems := (elems w)(next_elem w :=
          \<lparr>tag = ''DIV'', classList = classList_add [wrapper c, block c] [], contentEditable = ''true'',
           dataset = [''placeholder'' \<mapsto> toString (i18n_t a ph)], innerHTML = [], listeners = [(''keyup'', OnKeyUp)]\<rparr>),
       next_elem := Suc (next_elem w)\<rparr>)"
  by (simp add: drawView_def createElement_def upd_elem_def new_element_def addEventListener_def)

lemma constructor_this:
  "fst (constructor d c a w) =
     \<lparr>this_api = a,
      this_CSS = \<lparr>block = styles_block a, wrapper = ''ce-paragraph'',
                 settingsWrapper = ''cdx-paragraph-settings'',
                 settingsButton = styles_settingsButton a,
                 settingsButtonActive = styles_settingsButtonActive a\<rparr>,
      this_placeholder = (if truthy (get_prop c ''placeholder'') then get_prop c ''placeholder''
                          else JStr DEFAULT_PLACEHOLDER),
      this_data = Suc (next_obj w), this_element = next_elem w,
      this_preserveBlank = (if get_prop c ''preserveBlank'' \<noteq> Undefined then get_prop c ''preserveBlank''
                            else JBool False)\<rparr>"
  by (simp add: constructor_def drawView_eq new_object_def set_data_def Let_def)

lemma constructor_stored:
  "stored_record (constructor d c a w) =
     [''text'' \<mapsto> js_or (get_prop d ''text'') (JStr ''''), ''alignment'' \<mapsto> resolve_alignment d c]"
  by (simp add: stored_record_def constructor_def drawView_eq new_object_def set_data_def upd_elem_def
      Let_def)

lemma constructor_element:
  "elems (snd (constructor d c a w)) (next_elem w) =
     \<lparr>tag = ''DIV'', classList = classList_add [''ce-paragraph'', styles_block a] [],
      contentEditable = ''true'',
      dataset = [''placeholder'' \<mapsto> toString (i18n_t a
         (if truthy (get_prop c ''placeholder'') then get_prop c ''placeholder''
          else JStr DEFAULT_PLACEHOLDER))],
      innerHTML = read_back w (toString (js_or (get_prop d ''text'') (JStr ''''))),
      listeners = [(''keyup'', OnKeyUp)]\<rparr>"
  by (simp add: constructor_def drawView_eq new_object_def set_data_def upd_elem_def Let_def
      js_or_twice)

text \<open>A read of \<^verbatim>\<open>data\<close> right after construction: the text comes from the element.\<close>

lemma constructor_data_read:
  "data_read (constructor d c a w) =
     [''text'' \<mapsto> JStr (read_back w (toString (js_or (get_prop d ''text'') (JStr '''')))),
      ''alignment'' \<mapsto> resolve_alignment d c]"
proof -
  have "objs (snd (constructor d c a w)) (Suc (next_obj w)) =
      [''text'' \<mapsto> js_or (get_prop d ''text'') (JStr ''''), ''alignment'' \<mapsto> resolve_alignment d c]"
    using constructor_stored [of d c a w] by (simp add: stored_record_def constructor_this)
  then show ?thesis
    by (intro ext) (simp add: data_read_def get_data_eq constructor_this constructor_element)
qed

lemma resolve_alignment_eq:
  "resolve_alignment d c =
     (if get_prop d ''alignment'' \<in> {JStr ''left'', JStr ''center'', JStr ''right''}
      then get_prop d ''alignment''
      else if truthy (get_prop c ''defaultAlignment'') then get_prop c ''defaultAlignment''
      else JStr ''left'')"
  by (auto simp add: resolve_alignment_def js_or_def js_and_def Object_values_def ALIGNMENTS_def
      DEFAULT_ALIGNMENT_def)

text \<open>The priority chain at work: \<^verbatim>\<open>center\<close> in the data wins over a default, \<^verbatim>\<open>bogus\<close>
  falls back to the default, and to \<^verbatim>\<open>left\<close> when there is none.\<close>

lemma resolve_alignment_examples:
  "resolve_alignment [''alignment'' \<mapsto> JStr ''center''] [''defaultAlignment'' \<mapsto> JStr ''right''] = JStr ''center''"
  "resolve_alignment [''alignment'' \<mapsto> JStr ''bogus''] [''defaultAlignment'' \<mapsto> JStr ''right''] = JStr ''right''"
  "resolve_alignment [''alignment'' \<mapsto> JStr ''bogus''] Map.empty = JStr ''left''"
  "resolve_alignment Map.empty Map.empty = JStr ''left''"
  by (simp_all add: resolve_alignment_eq)

text \<open>The bundled build: its constructor never returns, its \<^verbatim>\<open>_toggleTune\<close> leaves the element
  with the class of the new alignment as its only alignment class.\<close>

lemma constructor_dist_raises: "fst (constructor_dist d c a w) = Inl TypeError"
  by (simp add: constructor_dist_def drawView_dist_def drawView_eq new_object_def Let_def)

lemma toggleTune_dist_classes:
  assumes "v \<in> set settings"
  shows "alignment_classes (elems (toggleTune_dist p (JStr v) w) (this_element p)) = [v]"
    and "get_prop (objs (toggleTune_dist p (JStr v) w) (this_data p)) ''alignment'' = JStr v"
  using assms
  by (auto simp add: toggleTune_dist_def get_data_eq set_prop_def upd_elem_def settings_def
      alignment_classes_def classList_remove_def Let_def filter_empty_conv)

text \<open>A click on a settings button: an index out of range throws before anything is written; a
  button's own index stores its name as the alignment, and \<^verbatim>\<open>_toggleTune\<close> throws.\<close>

lemma settings_click_eq:
  "settings_click p i els w =
     (Inl TypeError,
      if i < length settings
      then w\<lparr>objs := (objs w)(this_data p := (objs w (this_data p))
             (''text'' \<mapsto> JStr (innerHTML (elems w (this_element p))),
              ''alignment'' \<mapsto> JStr (settings ! i)))\<rparr>
      else w)"
  by (simp add: settings_click_def settings_at_def toggleTune_eq)

lemma settings_values: "i < length settings \<Longrightarrow> JStr (settings ! i) \<in> set (Object_values ALIGNMENTS)"
  by (auto simp add: settings_def Object_values_def ALIGNMENTS_def nth_Cons split: nat.splits)

lemma block_of_this:
  "this_data (fst (block_of t al)) = 1" "this_element (fst (block_of t al)) = 0"
  by (simp_all add: block_of_def constructor_this world0_def)

lemma block_of_element:
  "elems (snd (block_of t al)) 0 =
     \<lparr>tag = ''DIV'', classList = [''ce-paragraph'', ''ce-block''], contentEditable = ''true'',
      dataset = [''placeholder'' \<mapsto> ''''], innerHTML = serialise False t,
      listeners = [(''keyup'', OnKeyUp)]\<rparr>"
  using constructor_element [of "[''text'' \<mapsto> JStr t, ''alignment'' \<mapsto> JStr al]" Map.empty api0 world0]
  by (simp add: block_of_def world0_def api0_def toString_string_or_empty DEFAULT_PLACEHOLDER_def)

lemma block_of_stored:
  "al \<in> set settings \<Longrightarrow>
   stored_record (block_of t al) = [''text'' \<mapsto> JStr t, ''alignment'' \<mapsto> JStr al]"
  by (auto simp add: block_of_def constructor_stored resolve_alignment_eq js_or_def settings_def)

section \<open>The claims\<close>

text \<open>
  Claim C1. For every alignment name \<open>v\<close> among left, center and right, \<^verbatim>\<open>_toggleTune(v)\<close> sets
  the stored alignment to \<open>v\<close> and leaves the owned element with exactly one alignment class, \<open>v\<close>.
  The method of \<^verbatim>\<open>src/index.js\<close> does the first and not the second: on a paragraph built
  from the text \<^verbatim>\<open>hi\<close> aligned left, \<^verbatim>\<open>_toggleTune("center")\<close> stores
  \<^verbatim>\<open>center\<close>, throws a TypeError at \<^verbatim>\<open>this.wrapper.classList\<close>, and the element still has
  its two construction classes and no alignment class. (The bundled build does what the claim
  says: \<open>toggleTune_dist_classes\<close>.)
\<close>

theorem toggleTune_throws_and_adds_no_class:
  "fst (toggleTune (fst (block_of ''hi'' ''left'')) (JStr ''center'') (snd (block_of ''hi'' ''left'')))
     = Inl TypeError \<and>
   get_prop (stored_record (fst (block_of ''hi'' ''left''),
       snd (toggleTune (fst (block_of ''hi'' ''left'')) (JStr ''center'') (snd (block_of ''hi'' ''left'')))))
     ''alignment'' = JStr ''center'' \<and>
   classList (elems
       (snd (toggleTune (fst (block_of ''hi'' ''left'')) (JStr ''center'') (snd (block_of ''hi'' ''left''))))
       (this_element (fst (block_of ''hi'' ''left'')))) = [''ce-paragraph'', ''ce-block''] \<and>
   alignment_classes (elems
       (snd (toggleTune (fst (block_of ''hi'' ''left'')) (JStr ''center'') (snd (block_of ''hi'' ''left''))))
       (this_element (fst (block_of ''hi'' ''left'')))) = []"
  by (simp add: toggleTune_eq stored_record_def block_of_this block_of_element
      alignment_classes_def settings_def)

text \<open>
  Claim C2, as amended. The alignment the constructor stores is \<^verbatim>\<open>data.alignment\<close> when that is
  one of left, center and right; otherwise \<^verbatim>\<open>config.defaultAlignment\<close> when that is truthy
  (not \<^verbatim>\<open>undefined\<close>, \<^verbatim>\<open>null\<close>, \<^verbatim>\<open>false\<close> or the empty string); otherwise
  \<^verbatim>\<open>left\<close>. So \<^verbatim>\<open>center\<close> in the data wins over every default of the configuration, and
  \<^verbatim>\<open>bogus\<close> in the data is ignored.
\<close>

theorem constructor_alignment_priority:
  "get_prop (stored_record (constructor d c ap w)) ''alignment'' =
     (if get_prop d ''alignment'' \<in> {JStr ''left'', JStr ''center'', JStr ''right''}
      then get_prop d ''alignment''
      else if truthy (get_prop c ''defaultAlignment'') then get_prop c ''defaultAlignment''
      else JStr ''left'')"
  by (simp add: constructor_stored resolve_alignment_eq)

text \<open>
  Claim C2 as stated lets a \<^verbatim>\<open>config.defaultAlignment\<close> that is provided win whenever the data
  has no valid alignment. A provided empty string does not: the stored alignment is
  \<^verbatim>\<open>left\<close>.
\<close>

theorem constructor_empty_defaultAlignment_not_used:
  "get_prop Map.empty ''alignment'' \<notin> {JStr ''left'', JStr ''center'', JStr ''right''} \<and>
   [''defaultAlignment'' \<mapsto> JStr ''''] ''defaultAlignment'' = Some (JStr '''') \<and>
   get_prop (stored_record (constructor Map.empty [''defaultAlignment'' \<mapsto> JStr ''''] api0 world0))
     ''alignment'' = JStr ''left'' \<and>
   get_prop (stored_record (constructor Map.empty [''defaultAlignment'' \<mapsto> JStr ''''] api0 world0))
     ''alignment'' \<noteq> get_prop [''defaultAlignment'' \<mapsto> JStr ''''] ''defaultAlignment''"
  by (simp add: constructor_stored resolve_alignment_eq)

text \<open>
  Claim C3. For saved data whose \<^verbatim>\<open>text\<close> is a string, and an instance whose
  \<^verbatim>\<open>preserveBlank\<close> is a boolean (the type of the option; unset, it resolves to
  \<^verbatim>\<open>false\<close>), \<^verbatim>\<open>validate\<close> returns \<^verbatim>\<open>false\<close> exactly when the trimmed text is empty and
  \<^verbatim>\<open>preserveBlank\<close> is \<^verbatim>\<open>false\<close>, and \<^verbatim>\<open>true\<close> in every other case.
\<close>

theorem validate_false_iff_blank_and_not_preserved:
  assumes "get_prop savedData ''text'' = JStr t" and "this_preserveBlank p = JBool b"
  shows "(validate p savedData = Inr False \<longleftrightarrow> trim t = '''' \<and> b = False) \<and>
         (validate p savedData = Inr True \<longleftrightarrow> \<not> (trim t = '''' \<and> b = False))"
  using assms by (simp add: validate_def)

theorem validate_blank_examples:
  "validate (fst (constructor Map.empty Map.empty api0 world0)) [''text'' \<mapsto> JStr ''   ''] = Inr False \<and>
   validate (fst (constructor Map.empty [''preserveBlank'' \<mapsto> JBool True] api0 world0))
     [''text'' \<mapsto> JStr ''   ''] = Inr True \<and>
   validate (fst (constructor Map.empty Map.empty api0 world0)) [''text'' \<mapsto> JStr ''hello''] = Inr True"
proof -
  let ?blank = "[''text'' \<mapsto> JStr ''   '']"
  let ?hello = "[''text'' \<mapsto> JStr ''hello'']"
  let ?p = "fst (constructor Map.empty Map.empty api0 world0)"
  let ?q = "fst (constructor Map.empty [''preserveBlank'' \<mapsto> JBool True] api0 world0)"
  have blank: "get_prop ?blank ''text'' = JStr ''   ''" and hello: "get_prop ?hello ''text'' = JStr ''hello''"
    by simp_all
  have p: "this_preserveBlank ?p = JBool False" and q: "this_preserveBlank ?q = JBool True"
    by (simp_all add: constructor_this)
  show ?thesis
    using validate_false_iff_blank_and_not_preserved [OF blank p]
      validate_false_iff_blank_and_not_preserved [OF blank q]
      validate_false_iff_blank_and_not_preserved [OF hello p]
    by (simp add: trim_def is_white_space_def)
qed

text \<open>
  Claim C4, as amended. After construction the stored alignment is one of left, center and right
  exactly when \<^verbatim>\<open>data.alignment\<close> is one of the three, or \<^verbatim>\<open>config.defaultAlignment\<close> is
  falsy (absent included), or \<^verbatim>\<open>config.defaultAlignment\<close> is itself one of the three. And
  \<^verbatim>\<open>merge\<close>, \<^verbatim>\<open>onPaste\<close>, \<^verbatim>\<open>save\<close>, a read of \<^verbatim>\<open>data\<close> and a click on a settings
  button each keep a stored alignment that is one of the three among the three.
\<close>

theorem alignment_stays_valid:
  "(aligned (constructor d c ap w0) \<longleftrightarrow>
      get_prop d ''alignment'' \<in> set (Object_values ALIGNMENTS) \<or>
      \<not> truthy (get_prop c ''defaultAlignment'') \<or>
      get_prop c ''defaultAlignment'' \<in> set (Object_values ALIGNMENTS)) \<and>
   (aligned (p, w) \<longrightarrow>
     aligned (merge p incoming w) \<and>
     aligned (onPaste p pasted w) \<and>
     aligned (p, snd (save p container w)) \<and>
     aligned (p, snd (get_data p w)) \<and>
     aligned (p, snd (settings_click p i buttons w)))"
proof (intro conjI impI)
  show "aligned (constructor d c ap w0) \<longleftrightarrow>
      get_prop d ''alignment'' \<in> set (Object_values ALIGNMENTS) \<or>
      \<not> truthy (get_prop c ''defaultAlignment'') \<or>
      get_prop c ''defaultAlignment'' \<in> set (Object_values ALIGNMENTS)"
    by (auto simp add: aligned_def constructor_stored resolve_alignment_eq Object_values_def
        ALIGNMENTS_def)
next
  assume "aligned (p, w)"
  then show "aligned (merge p incoming w)"
    by (simp add: aligned_def stored_record_def merge_eq)
next
  assume "aligned (p, w)"
  then show "aligned (onPaste p pasted w)"
    by (simp add: aligned_def stored_record_def onPaste_eq)
next
  assume "aligned (p, w)"
  then show "aligned (p, snd (save p container w))"
    by (simp add: aligned_def stored_record_def save_eq)
next
  assume "aligned (p, w)"
  then show "aligned (p, snd (get_data p w))"
    by (simp add: aligned_def stored_record_def get_data_eq)
next
  assume "aligned (p, w)"
  then show "aligned (p, snd (settings_click p i buttons w))"
    using settings_values [of i]
    by (simp add: aligned_def stored_record_def settings_click_eq)
qed

theorem alignment_stays_valid_example:
  "aligned (constructor [''alignment'' \<mapsto> JStr ''center''] [''defaultAlignment'' \<mapsto> JStr ''justify''] api0 world0) \<and>
   aligned (constructor [''alignment'' \<mapsto> JStr ''bogus''] [''defaultAlignment'' \<mapsto> JStr ''right''] api0 world0) \<and>
   aligned (constructor [''alignment'' \<mapsto> JStr ''bogus''] [''defaultAlignment'' \<mapsto> JStr ''''] api0 world0) \<and>
   aligned (constructor [''alignment'' \<mapsto> JStr ''bogus''] Map.empty api0 world0) \<and>
   aligned (block_of ''Hello '' ''center'') \<and>
   aligned (merge (fst (block_of ''Hello '' ''center'')) [''text'' \<mapsto> JStr ''World'']
              (snd (block_of ''Hello '' ''center''))) \<and>
   aligned (onPaste (fst (block_of ''Hello '' ''center'')) 0 (snd (block_of ''Hello '' ''center''))) \<and>
   aligned (fst (block_of ''Hello '' ''center''),
            snd (save (fst (block_of ''Hello '' ''center'')) 0 (snd (block_of ''Hello '' ''center'')))) \<and>
   aligned (fst (block_of ''Hello '' ''center''),
            snd (get_data (fst (block_of ''Hello '' ''center'')) (snd (block_of ''Hello '' ''center'')))) \<and>
   aligned (fst (block_of ''Hello '' ''center''),
            snd (settings_click (fst (block_of ''Hello '' ''center'')) 2 [] (snd (block_of ''Hello '' ''center''))))"
proof -
  let ?bogus = "[''alignment'' \<mapsto> JStr ''bogus'']"
  let ?b = "block_of ''Hello '' ''center''"
  have b: "aligned (fst ?b, snd ?b)"
    by (simp add: aligned_def block_of_stored settings_def Object_values_def ALIGNMENTS_def)
  have v: "JStr ''center'' \<in> set (Object_values ALIGNMENTS)" "JStr ''right'' \<in> set (Object_values ALIGNMENTS)"
    by (simp_all add: Object_values_def ALIGNMENTS_def)
  from b v show ?thesis
    using alignment_stays_valid [of "[''alignment'' \<mapsto> JStr ''center'']"
          "[''defaultAlignment'' \<mapsto> JStr ''justify'']" api0 world0 "fst ?b" "snd ?b"
          "[''text'' \<mapsto> JStr ''World'']" 0 0 2 "[]"]
      alignment_stays_valid [of ?bogus "[''defaultAlignment'' \<mapsto> JStr ''right'']" api0 world0 "fst ?b" "snd ?b"]
      alignment_stays_valid [of ?bogus "[''defaultAlignment'' \<mapsto> JStr '''']" api0 world0 "fst ?b" "snd ?b"]
      alignment_stays_valid [of ?bogus Map.empty api0 world0 "fst ?b" "snd ?b"]
    by simp
qed

text \<open>
  Claim C4 as stated holds the invariant for every \<^verbatim>\<open>config.defaultAlignment\<close>. The constructor
  checks \<^verbatim>\<open>data.alignment\<close> against \<^verbatim>\<open>ALIGNMENTS\<close> and takes the default of the
  configuration as it comes: with no alignment in the data and the default \<^verbatim>\<open>justify\<close>, the
  stored alignment is \<^verbatim>\<open>justify\<close>.
\<close>

theorem constructor_stores_any_defaultAlignment:
  "get_prop (stored_record (constructor Map.empty [''defaultAlignment'' \<mapsto> JStr ''justify''] api0 world0))
     ''alignment'' = JStr ''justify'' \<and>
   \<not> aligned (constructor Map.empty [''defaultAlignment'' \<mapsto> JStr ''justify''] api0 world0)"
  by (simp add: aligned_def constructor_stored resolve_alignment_eq Object_values_def ALIGNMENTS_def)

text \<open>
  Claim C5. When the incoming data has a string \<^verbatim>\<open>text\<close>, \<^verbatim>\<open>merge\<close> sets the stored text to
  the current text followed by the incoming text, where the current text is what a read of
  \<^verbatim>\<open>data\<close> gives: the markup of the element at that moment, whatever the record held before.
  The instance keeps its record, and every other field of the record, the alignment among
  them, is as before.
\<close>

theorem merge_concatenates_text:
  assumes "get_prop incoming ''text'' = JStr s"
  shows "get_prop (data_read (p, w)) ''text'' = JStr (innerHTML (elems w (this_element p))) \<and>
         fst (merge p incoming w) = p \<and>
         stored_record (merge p incoming w) =
           (stored_record (p, w))(''text'' \<mapsto> JStr (innerHTML (elems w (this_element p)) @ s)) \<and>
         get_prop (stored_record (merge p incoming w)) ''text'' =
           JStr (innerHTML (elems w (this_element p)) @ s) \<and>
         get_prop (stored_record (merge p incoming w)) ''alignment'' =
           get_prop (stored_record (p, w)) ''alignment''"
  using assms by (simp add: data_read_def stored_record_def merge_eq get_data_eq)

text \<open>The example: the paragraph was built with the text \<^verbatim>\<open>old\<close>, the user has since typed
  \<^verbatim>\<open>Hello \<close> in its place, and \<^verbatim>\<open>World\<close> is merged in.\<close>

theorem merge_hello_world:
  "get_prop (stored_record (typed ''Hello '' (block_of ''old'' ''center''))) ''text'' = JStr ''old'' \<and>
   get_prop (stored_record (merge (fst (typed ''Hello '' (block_of ''old'' ''center'')))
     [''text'' \<mapsto> JStr ''World''] (snd (typed ''Hello '' (block_of ''old'' ''center''))))) ''text''
     = JStr ''Hello World'' \<and>
   get_prop (stored_record (merge (fst (typed ''Hello '' (block_of ''old'' ''center'')))
     [''text'' \<mapsto> JStr ''World''] (snd (typed ''Hello '' (block_of ''old'' ''center''))))) ''alignment''
     = JStr ''center''"
proof -
  let ?b = "typed ''Hello '' (block_of ''old'' ''center'')"
  have inc: "get_prop [''text'' \<mapsto> JStr ''World''] ''text'' = JStr ''World''"
    by simp
  have refs: "this_data (fst ?b) = 1" "this_element (fst ?b) = 0"
    by (simp_all add: typed_def block_of_this)
  have st: "stored_record ?b = [''text'' \<mapsto> JStr ''old'', ''alignment'' \<mapsto> JStr ''center'']"
    using block_of_stored [of "''center''" "''old''"]
    by (simp add: typed_def stored_record_def upd_elem_def settings_def)
  have el: "innerHTML (elems (snd ?b) 0) = ''Hello ''"
    by (simp add: typed_def upd_elem_def block_of_this)
  show ?thesis
    using merge_concatenates_text [OF inc, of "fst ?b" "snd ?b"] refs st el by simp
qed

text \<open>
  Claim C6, as amended. Constructing from data with the string text \<open>t\<close> and an alignment \<open>al\<close>
  among left, center and right, and reading \<^verbatim>\<open>data\<close> at once, returns the record with the
  alignment \<open>al\<close> and, as text, the markup the element gives back after \<open>t\<close> was written into it,
  whatever the configuration. That text is \<open>t\<close> itself when \<open>t\<close> is markup the browser gives
  back unchanged.
\<close>

theorem construct_then_read_data:
  assumes "get_prop d ''text'' = JStr t"
    and "get_prop d ''alignment'' = JStr al"
    and "al \<in> {''left'', ''center'', ''right''}"
  shows "innerHTML (elems (snd (constructor d c ap w)) (render (fst (constructor d c ap w)))) = read_back w t \<and>
         data_read (constructor d c ap w) = [''text'' \<mapsto> JStr (read_back w t), ''alignment'' \<mapsto> JStr al] \<and>
         (read_back w t = t \<longrightarrow>
            data_read (constructor d c ap w) = [''text'' \<mapsto> JStr t, ''alignment'' \<mapsto> JStr al])"
proof -
  have "resolve_alignment d c = JStr al"
    using assms by (auto simp add: resolve_alignment_eq)
  then have "data_read (constructor d c ap w) = [''text'' \<mapsto> JStr (read_back w t), ''alignment'' \<mapsto> JStr al]"
    using assms(1) by (simp add: constructor_data_read toString_string_or_empty)
  moreover have "innerHTML (elems (snd (constructor d c ap w)) (render (fst (constructor d c ap w)))) = read_back w t"
    using assms(1) by (simp add: render_def constructor_this constructor_element toString_string_or_empty)
  ultimately show ?thesis
    by simp
qed

theorem construct_then_read_data_example:
  "data_read (constructor [''text'' \<mapsto> JStr ''<b>hi</b>'', ''alignment'' \<mapsto> JStr ''right'']
       [''defaultAlignment'' \<mapsto> JStr ''center''] api0 world0) =
     [''text'' \<mapsto> JStr ''<b>hi</b>'', ''alignment'' \<mapsto> JStr ''right'']"
proof -
  let ?d = "[''text'' \<mapsto> JStr ''<b>hi</b>'', ''alignment'' \<mapsto> JStr ''right'']"
  have t: "get_prop ?d ''text'' = JStr ''<b>hi</b>''" and al: "get_prop ?d ''alignment'' = JStr ''right''"
    by simp_all
  have m: "''right'' \<in> {''left'', ''center'', ''right''}"
    by simp
  have rb: "read_back world0 ''<b>hi</b>'' = ''<b>hi</b>''"
    by (simp add: world0_def)
  show ?thesis
    using construct_then_read_data [OF t al m, of "[''defaultAlignment'' \<mapsto> JStr ''center'']" api0 world0] rb
    by simp
qed

text \<open>
  Claim C6 as stated returns the text \<open>t\<close> for every \<open>t\<close>. The text returned is read from the
  element, and the element serialises what it parsed: built from the text \<^verbatim>\<open>a & b\<close>, the
  paragraph reads back \<^verbatim>\<open>a &amp; b\<close>.
\<close>

theorem construct_then_read_data_escapes:
  "get_prop [''text'' \<mapsto> JStr ''a & b'', ''alignment'' \<mapsto> JStr ''right''] ''text'' = JStr ''a & b'' \<and>
   get_prop (data_read (constructor [''text'' \<mapsto> JStr ''a & b'', ''alignment'' \<mapsto> JStr ''right'']
       Map.empty api0 world0)) ''text'' = JStr ''a &amp; b'' \<and>
   get_prop (data_read (constructor [''text'' \<mapsto> JStr ''a & b'', ''alignment'' \<mapsto> JStr ''right'']
       Map.empty api0 world0)) ''text'' \<noteq> JStr ''a & b''"
  by (simp add: constructor_data_read toString_string_or_empty world0_def)

text \<open>
  Claim C7. \<^verbatim>\<open>save\<close> returns the reference the instance holds, that of the stored record
  itself, and no new object; in the store only that record has changed, and in it only
  \<^verbatim>\<open>text\<close>, which is now the markup of the container passed in. The alignment is as before.
\<close>

theorem save_returns_stored_record:
  "fst (save p container w) = this_data p \<and>
   snd (save p container w) =
     w\<lparr>objs := (objs w)(this_data p :=
          (stored_record (p, w))(''text'' \<mapsto> JStr (innerHTML (elems w container))))\<rparr> \<and>
   get_prop (objs (snd (save p container w)) (fst (save p container w))) ''text'' =
     JStr (innerHTML (elems w container)) \<and>
   get_prop (objs (snd (save p container w)) (fst (save p container w))) ''alignment'' =
     get_prop (stored_record (p, w)) ''alignment''"
  by (simp add: save_eq stored_record_def)

text \<open>
  Claim C8. \<^verbatim>\<open>onPaste\<close> overwrites the \<^verbatim>\<open>text\<close> of the stored record with the markup of
  \<^verbatim>\<open>event.detail.data\<close>; the alignment and every other field of the record are as before, and
  the instance still holds the same record.
\<close>

theorem onPaste_overwrites_text_only:
  "fst (onPaste p detail_data w) = p \<and>
   stored_record (onPaste p detail_data w) =
     (stored_record (p, w))(''text'' \<mapsto> JStr (innerHTML (elems w detail_data))) \<and>
   get_prop (stored_record (onPaste p detail_data w)) ''alignment'' =
     get_prop (stored_record (p, w)) ''alignment''"
  by (simp add: onPaste_eq stored_record_def)

text \<open>
  Claim C9. The constructor builds the owned element with the wrapper class and the host's block
  class, editable, with the translated placeholder in its data set and a key-up listener, and
  with the resolved alignment as one more class; \<^verbatim>\<open>render\<close> returns that element. In
  \<^verbatim>\<open>src/index.js\<close> all of this holds but the alignment class: the paragraph built from the
  text \<^verbatim>\<open>hi\<close> aligned right stores \<^verbatim>\<open>right\<close> and its element has the classes
  \<^verbatim>\<open>ce-paragraph\<close> and \<^verbatim>\<open>ce-block\<close> only. (The bundled build adds the class in
  \<^verbatim>\<open>drawView\<close>, on a \<^verbatim>\<open>this._element\<close> that is not assigned yet: \<open>constructor_dist_raises\<close>.)
\<close>

theorem constructed_view_has_no_alignment_class:
  "get_prop (stored_record (block_of ''hi'' ''right'')) ''alignment'' = JStr ''right'' \<and>
   elems (snd (block_of ''hi'' ''right'')) (render (fst (block_of ''hi'' ''right''))) =
     \<lparr>tag = ''DIV'', classList = [''ce-paragraph'', ''ce-block''], contentEditable = ''true'',
      dataset = [''placeholder'' \<mapsto> ''''], innerHTML = ''hi'', listeners = [(''keyup'', OnKeyUp)]\<rparr> \<and>
   ''right'' \<notin> set (classList (elems (snd (block_of ''hi'' ''right'')) (render (fst (block_of ''hi'' ''right'')))))"
  by (simp add: block_of_stored settings_def render_def block_of_this block_of_element)

text \<open>
  Claim C10. \<^verbatim>\<open>validate\<close> returns a boolean exactly when the \<^verbatim>\<open>text\<close> of the saved data is
  a string: with \<^verbatim>\<open>text\<close> absent, \<^verbatim>\<open>undefined\<close> or \<^verbatim>\<open>null\<close> the call throws a TypeError,
  and with a string \<^verbatim>\<open>text\<close> it never throws.
\<close>

theorem validate_returns_iff_text_is_string:
  "(savedData ''text'' = None \<or> get_prop savedData ''text'' \<in> {Undefined, Null} \<longrightarrow>
      validate p savedData = Inl TypeError) \<and>
   ((\<exists>t. get_prop savedData ''text'' = JStr t) \<longrightarrow> (\<exists>b. validate p savedData = Inr b)) \<and>
   ((\<exists>b. validate p savedData = Inr b) \<longleftrightarrow> (\<exists>t. get_prop savedData ''text'' = JStr t))"
proof -
  have "validate p savedData = Inl TypeError" if "\<nexists>t. get_prop savedData ''text'' = JStr t"
    using that by (cases "get_prop savedData ''text''") (simp_all add: validate_def)
  moreover have "\<exists>b. validate p savedData = Inr b" if "get_prop savedData ''text'' = JStr t" for t
    using that by (auto simp add: validate_def)
  moreover have "get_prop savedData ''text'' = Undefined" if "savedData ''text'' = None"
    using that by (simp add: get_prop_def)
  ultimately show ?thesis
    by (cases "get_prop savedData ''text''") auto
qed

theorem validate_returns_iff_text_is_string_example:
  "validate (fst (block_of ''hi'' ''left'')) Map.empty = Inl TypeError \<and>
   validate (fst (block_of ''hi'' ''left'')) [''text'' \<mapsto> Undefined] = Inl TypeError \<and>
   validate (fst (block_of ''hi'' ''left'')) [''text'' \<mapsto> Null] = Inl TypeError \<and>
   (\<exists>b. validate (fst (block_of ''hi'' ''left'')) [''text'' \<mapsto> JStr ''hi''] = Inr b)"
  using validate_returns_iff_text_is_string [of Map.empty "fst (block_of ''hi'' ''left'')"]
    validate_returns_iff_text_is_string [of "[''text'' \<mapsto> Undefined]" "fst (block_of ''hi'' ''left'')"]
    validate_returns_iff_text_is_string [of "[''text'' \<mapsto> Null]" "fst (block_of ''hi'' ''left'')"]
    validate_returns_iff_text_is_string [of "[''text'' \<mapsto> JStr ''hi'']" "fst (block_of ''hi'' ''left'')"]
  by simp

end
